theory Spec2Isabelle
  imports Complex_Main
begin

section \<open>JavaScript values\<close>

text \<open>
  The repair pass of \<^verbatim>\<open>fixData.ts\<close> receives what the store holds in a JSONB column, typed
  \<^verbatim>\<open>any[]\<close>: every branch of its \<^verbatim>\<open>typeof\<close> tests is reachable. The values are modelled as a
  datatype of JavaScript values; they hold no function, as no value read from the store
  does. A text is held as the bytes of its UTF-8 form. A number is a finite value, one of
  the two infinities or NaN. A finite number is the exact rational it denotes: the
  rounding of a decimal text to the nearest binary64 value and the sign of zero are not
  modelled.
\<close>

datatype number = Fin rat | PosInfinity | NegInfinity | NaN

datatype jsval =
    JUndefined
  | JNull
  | JBool bool
  | JNumber number
  | JString string
  | JArray "jsval list"
  | JObject "(string \<times> jsval) list"

text \<open>\<^verbatim>\<open>isNaN\<close> and \<^verbatim>\<open>isFinite\<close> on a number.\<close>

fun isNaN :: "number \<Rightarrow> bool" where
  "isNaN NaN = True"
| "isNaN _ = False"


text \<open>Subtraction of numbers (\<^verbatim>\<open>tA - tB\<close>): equal infinities and NaN give NaN.\<close>

fun minus_number :: "number \<Rightarrow> number \<Rightarrow> number" where
  "minus_number (Fin a) (Fin b) = Fin (a - b)"
| "minus_number NaN _ = NaN"
| "minus_number _ NaN = NaN"
| "minus_number PosInfinity PosInfinity = NaN"
| "minus_number NegInfinity NegInfinity = NaN"
| "minus_number PosInfinity _ = PosInfinity"
| "minus_number NegInfinity _ = NegInfinity"
| "minus_number (Fin a) PosInfinity = NegInfinity"
| "minus_number (Fin a) NegInfinity = PosInfinity"

text \<open>\<^verbatim>\<open>v > 0\<close> on a number; false for NaN.\<close>

fun positive :: "number \<Rightarrow> bool" where
  "positive (Fin r) = (0 < r)"
| "positive PosInfinity = True"
| "positive _ = False"

text \<open>
  \<^verbatim>\<open>!item\<close> is true of the falsy values: undefined, null, false, 0, NaN and the empty
  string.
\<close>

fun truthy :: "jsval \<Rightarrow> bool" where
  "truthy JUndefined = False"
| "truthy JNull = False"
| "truthy (JBool b) = b"
| "truthy (JNumber (Fin r)) = (r \<noteq> 0)"
| "truthy (JNumber NaN) = False"
| "truthy (JNumber _) = True"
| "truthy (JString s) = (s \<noteq> [])"
| "truthy (JArray _) = True"
| "truthy (JObject _) = True"

fun isArray :: "jsval \<Rightarrow> bool" where
  "isArray (JArray _) = True"
| "isArray _ = False"

text \<open>
  Property access \<^verbatim>\<open>item.volume\<close>, \<^verbatim>\<open>item.time\<close> on a value that is neither null nor
  undefined: an object gives the field's value, or undefined when it has none; a primitive
  or an array has no property of these two names.
\<close>

fun getProp :: "jsval \<Rightarrow> string \<Rightarrow> jsval" where
  "getProp (JObject kvs) k = (case map_of kvs k of Some v \<Rightarrow> v | None \<Rightarrow> JUndefined)"
| "getProp _ k = JUndefined"

text \<open>\<^verbatim>\<open>x == null\<close> holds of null and undefined only.\<close>

fun looseNull :: "jsval \<Rightarrow> bool" where
  "looseNull JUndefined = True"
| "looseNull JNull = True"
| "looseNull _ = False"

subsection \<open>Decimal digits\<close>

definition isDigit :: "char \<Rightarrow> bool" where
  "isDigit c = (c \<in> set ''0123456789'')"

definition digitVal :: "char \<Rightarrow> nat" where
  "digitVal c =
     (case map_of (zip ''0123456789'' [0, 1, 2, 3, 4, 5, 6, 7, 8, 9]) c of
        Some d \<Rightarrow> d
      | None \<Rightarrow> 0)"

text \<open>The value of a digit string, most significant digit first.\<close>

definition digitsVal :: "string \<Rightarrow> nat" where
  "digitsVal ds = foldl (\<lambda>acc c. 10 * acc + digitVal c) 0 ds"

definition digitChar :: "nat \<Rightarrow> char" where
  "digitChar d = ''0123456789'' ! (d mod 10)"

text \<open>The decimal digits of a natural number, with no leading zero.\<close>

fun natToString :: "nat \<Rightarrow> string" where
  "natToString n = (if n < 10 then [digitChar n] else natToString (n div 10) @ [digitChar n])"

declare natToString.simps [simp del]

subsection \<open>parseFloat\<close>

text \<open>
  The language's \<^verbatim>\<open>parseFloat\<close>: leading white space is skipped, then the longest prefix that
  is a decimal literal is read (an optional sign, then \<^verbatim>\<open>Infinity\<close> or digits with at most
  one decimal point and an optional exponent); what follows the prefix is ignored, and the
  result is NaN when there is no such prefix. The argument is a text: for any other value
  the caller converts it first, which may throw (see \<open>ToString\<close> below).
\<close>

definition startsWith :: "string \<Rightarrow> string \<Rightarrow> bool" where
  "startsWith s p = (take (length p) s = p)"

text \<open>
  The white space and line terminators of the language, each as its UTF-8 bytes: tab, line
  feed, vertical tab, form feed, carriage return, space, then U+00A0, U+1680, U+2000 to
  U+200A, U+2028, U+2029, U+202F, U+205F, U+3000 and U+FEFF.
\<close>

definition whiteSpaces :: "string list" where
  "whiteSpaces =
     [[CHR 0x09], [CHR 0x0A], [CHR 0x0B], [CHR 0x0C], [CHR 0x0D], [CHR 0x20],
      [CHR 0xC2, CHR 0xA0], [CHR 0xE1, CHR 0x9A, CHR 0x80],
      [CHR 0xE2, CHR 0x80, CHR 0x80], [CHR 0xE2, CHR 0x80, CHR 0x81],
      [CHR 0xE2, CHR 0x80, CHR 0x82], [CHR 0xE2, CHR 0x80, CHR 0x83],
      [CHR 0xE2, CHR 0x80, CHR 0x84], [CHR 0xE2, CHR 0x80, CHR 0x85],
      [CHR 0xE2, CHR 0x80, CHR 0x86], [CHR 0xE2, CHR 0x80, CHR 0x87],
      [CHR 0xE2, CHR 0x80, CHR 0x88], [CHR 0xE2, CHR 0x80, CHR 0x89],
      [CHR 0xE2, CHR 0x80, CHR 0x8A], [CHR 0xE2, CHR 0x80, CHR 0xA8],
      [CHR 0xE2, CHR 0x80, CHR 0xA9], [CHR 0xE2, CHR 0x80, CHR 0xAF],
      [CHR 0xE2, CHR 0x81, CHR 0x9F], [CHR 0xE3, CHR 0x80, CHR 0x80],
      [CHR 0xEF, CHR 0xBB, CHR 0xBF]]"

text \<open>Leading white space is dropped, one character at each of at most \<open>n\<close> steps.\<close>

fun skipWhiteSpace :: "nat \<Rightarrow> string \<Rightarrow> string" where
  "skipWhiteSpace 0 s = s"
| "skipWhiteSpace (Suc n) s =
     (case find (startsWith s) whiteSpaces of
        None \<Rightarrow> s
      | Some w \<Rightarrow> skipWhiteSpace n (drop (length w) s))"

definition trimStart :: "string \<Rightarrow> string" where
  "trimStart s = skipWhiteSpace (length s) s"

text \<open>The exponent part, if one can be read at the head of the string: e or E, a sign, digits.\<close>

definition exponentPart :: "string \<Rightarrow> int" where
  "exponentPart s =
     (case s of
        [] \<Rightarrow> 0
      | c # r \<Rightarrow>
          if c = CHR ''e'' \<or> c = CHR ''E'' then
            (let neg = startsWith r ''-'';
                 r' = (if startsWith r ''-'' \<or> startsWith r ''+'' then tl r else r);
                 ds = takeWhile isDigit r'
             in if ds = [] then 0
                else if neg then - int (digitsVal ds) else int (digitsVal ds))
          else 0)"

definition scale10 :: "rat \<Rightarrow> int \<Rightarrow> rat" where
  "scale10 r e = (if 0 \<le> e then r * 10 ^ nat e else r / 10 ^ nat (- e))"

text \<open>
  A value that binary64 cannot hold is an infinity: every value from
  \<open>2 ^ 1024 - 2 ^ 970\<close> on, half way between the largest finite value and \<open>2 ^ 1024\<close>,
  rounds to it. (The first test decides nothing: it spares the evaluation of that bound
  on a small value.)
\<close>

definition overflow :: "rat \<Rightarrow> number" where
  "overflow r =
     (if r < 2 ^ 64 then Fin r
      else if 2 ^ 1024 - 2 ^ 970 \<le> r then PosInfinity
      else Fin r)"

text \<open>An unsigned decimal literal at the head of the string, or NaN.\<close>

definition unsignedLiteral :: "string \<Rightarrow> number" where
  "unsignedLiteral s =
     (if startsWith s ''Infinity'' then PosInfinity
      else
        (let ip = takeWhile isDigit s;
             r1 = dropWhile isDigit s;
             dot = startsWith r1 ''.'';
             fp = (if dot then takeWhile isDigit (tl r1) else []);
             r2 = (if dot then dropWhile isDigit (tl r1) else r1)
         in if ip = [] \<and> fp = [] then NaN
            else overflow (scale10
                   (of_nat (digitsVal ip) + of_nat (digitsVal fp) / 10 ^ length fp)
                   (exponentPart r2))))"

fun negate :: "number \<Rightarrow> number" where
  "negate (Fin r) = Fin (- r)"
| "negate PosInfinity = NegInfinity"
| "negate NegInfinity = PosInfinity"
| "negate NaN = NaN"

definition parseFloat :: "string \<Rightarrow> number" where
  "parseFloat s =
     (let t = trimStart s
      in if startsWith t ''-'' then negate (unsignedLiteral (tl t))
         else if startsWith t ''+'' then unsignedLiteral (tl t)
         else unsignedLiteral t)"

subsection \<open>String conversion\<close>

text \<open>
  \<^verbatim>\<open>String(x)\<close>, which \<^verbatim>\<open>parseFloat\<close> also applies to an argument that is not a text. The
  conversion can throw: an object is converted by its \<^verbatim>\<open>toString\<close> method, and an object
  read from the store that has a field of its own named \<^verbatim>\<open>toString\<close> has no such method
  any more (the field holds no function, and \<^verbatim>\<open>valueOf\<close> gives no primitive either), so
  that the conversion throws a TypeError. The result is \<open>None\<close> then. Any other object
  is \<^verbatim>\<open>[object Object]\<close>. An array is its elements joined by commas, null and undefined
  elements being empty, and it throws when the conversion of an element does.

  A finite number is written in plain decimal notation with all its digits (a binary64
  value has at most 1074 fractional digits), so that \<^verbatim>\<open>parseFloat\<close> reads the number back
  from its text. The shorter form that the language chooses among the texts that read
  back, and its exponent notation for very large and very small numbers, are not
  modelled.
\<close>

fun fracDigits :: "nat \<Rightarrow> rat \<Rightarrow> string" where
  "fracDigits 0 f = []"
| "fracDigits (Suc k) f =
     (if f = 0 then []
      else digitChar (nat \<lfloor>f * 10\<rfloor>) # fracDigits k (f * 10 - of_int \<lfloor>f * 10\<rfloor>))"

definition finToString :: "rat \<Rightarrow> string" where
  "finToString r =
     (let a = \<bar>r\<bar>; w = \<lfloor>a\<rfloor>; f = a - of_int w
      in (if r < 0 then ''-'' else []) @ natToString (nat w) @
         (if f = 0 then [] else ''.'' @ fracDigits 1074 f))"

fun numberToString :: "number \<Rightarrow> string" where
  "numberToString (Fin r) = finToString r"
| "numberToString PosInfinity = ''Infinity''"
| "numberToString NegInfinity = ''-Infinity''"
| "numberToString NaN = ''NaN''"

fun joinWith :: "string \<Rightarrow> string list \<Rightarrow> string" where
  "joinWith sep [] = []"
| "joinWith sep [x] = x"
| "joinWith sep (x # y # ys) = x @ sep @ joinWith sep (y # ys)"

fun ToString :: "jsval \<Rightarrow> string option" where
  "ToString JUndefined = Some ''undefined''"
| "ToString JNull = Some ''null''"
| "ToString (JBool b) = Some (if b then ''true'' else ''false'')"
| "ToString (JNumber n) = Some (numberToString n)"
| "ToString (JString s) = Some s"
| "ToString (JArray xs) =
     map_option (joinWith '','')
       (those (map (\<lambda>x. if looseNull x then Some [] else ToString x) xs))"
| "ToString (JObject kvs) =
     (case map_of kvs ''toString'' of
        Some f \<Rightarrow> None
      | None \<Rightarrow> Some ''[object Object]'')"

section \<open>The repair pass: fixVolumeHistory\<close>

text \<open>
  Every step of the pass that can throw returns an option, \<open>None\<close> standing for the
  TypeError; the function as a whole throws when a step does.
\<close>

text \<open>The number of decimal points of a string: \<^verbatim>\<open>(s.match(/\./g) || []).length\<close>.\<close>

definition dotsCount :: "string \<Rightarrow> nat" where
  "dotsCount s = length (filter (\<lambda>c. c = CHR ''.'') s)"

text \<open>
  The time of an item as a number, as the sort and the rebuilding step read it:
  \<^verbatim>\<open>typeof a.time === "number" ? a.time : parseFloat(a.time)\<close>. The filter computes the same
  value as \<^verbatim>\<open>parseFloat(String(item.time))\<close>. The volume is read in the same way.
\<close>

definition timeOf :: "jsval \<Rightarrow> number option" where
  "timeOf item =
     (case getProp item ''time'' of
        JNumber t \<Rightarrow> Some t
      | v \<Rightarrow> map_option parseFloat (ToString v))"

definition volumeOf :: "jsval \<Rightarrow> number option" where
  "volumeOf item =
     (case getProp item ''volume'' of
        JNumber v \<Rightarrow> Some v
      | w \<Rightarrow> map_option parseFloat (ToString w))"

text \<open>The time check at the end of the filter's callback (lines 73 to 84).\<close>

definition timeOk :: "jsval \<Rightarrow> bool option" where
  "timeOk item =
     (case getProp item ''time'' of
        JNumber t \<Rightarrow> Some True
      | v \<Rightarrow> (case ToString v of
                None \<Rightarrow> None
              | Some s \<Rightarrow> Some (\<not> isNaN (parseFloat s))))"

text \<open>
  The callback of \<^verbatim>\<open>cloned.filter\<close> (lines 48 to 85): whether the item is kept. The volume
  is judged first, so the callback throws only on an item whose volume passes.
\<close>

definition keepItem :: "jsval \<Rightarrow> bool option" where
  "keepItem item =
     (if \<not> truthy item \<or> looseNull (getProp item ''volume'') then Some False
      else
        (case getProp item ''volume'' of
           JNumber v \<Rightarrow> timeOk item
         | JString s \<Rightarrow>
             if dotsCount s > 1 then Some False
             else if isNaN (parseFloat s) then Some False
             else timeOk item
         | _ \<Rightarrow> Some False))"

text \<open>\<^verbatim>\<open>Array.prototype.filter\<close> with a callback that may throw.\<close>

fun filterArray :: "('a \<Rightarrow> bool option) \<Rightarrow> 'a list \<Rightarrow> 'a list option" where
  "filterArray p [] = Some []"
| "filterArray p (x # xs) =
     (case p x of
        None \<Rightarrow> None
      | Some b \<Rightarrow>
          (case filterArray p xs of
             None \<Rightarrow> None
           | Some ys \<Rightarrow> Some (if b then x # ys else ys)))"

definition filtered :: "jsval list \<Rightarrow> jsval list option" where
  "filtered cloned = filterArray keepItem cloned"

text \<open>
  A stable sort by a comparison function, in which a result that is NaN counts as 0. It
  is an insertion sort: an element moves behind those it compares greater than.
  \<open>sortBy\<close> is the sort by a comparison that always returns; the store uses it to order
  the rows it answers with. \<open>arraySort\<close> is \<^verbatim>\<open>Array.prototype.sort\<close> with a comparison
  function that may throw.
\<close>

fun insertBy :: "('a \<Rightarrow> 'a \<Rightarrow> number) \<Rightarrow> 'a \<Rightarrow> 'a list \<Rightarrow> 'a list" where
  "insertBy cmp x [] = [x]"
| "insertBy cmp x (y # ys) =
     (if positive (cmp x y) then y # insertBy cmp x ys else x # y # ys)"

definition sortBy :: "('a \<Rightarrow> 'a \<Rightarrow> number) \<Rightarrow> 'a list \<Rightarrow> 'a list" where
  "sortBy cmp xs = foldr (insertBy cmp) xs []"

fun arrayInsert :: "('a \<Rightarrow> 'a \<Rightarrow> number option) \<Rightarrow> 'a \<Rightarrow> 'a list \<Rightarrow> 'a list option" where
  "arrayInsert cmp x [] = Some [x]"
| "arrayInsert cmp x (y # ys) =
     (case cmp x y of
        None \<Rightarrow> None
      | Some c \<Rightarrow>
          if positive c then map_option (\<lambda>zs. y # zs) (arrayInsert cmp x ys)
          else Some (x # y # ys))"

fun arraySort :: "('a \<Rightarrow> 'a \<Rightarrow> number option) \<Rightarrow> 'a list \<Rightarrow> 'a list option" where
  "arraySort cmp [] = Some []"
| "arraySort cmp (x # xs) =
     (case arraySort cmp xs of
        None \<Rightarrow> None
      | Some ys \<Rightarrow> arrayInsert cmp x ys)"

text \<open>The comparison function of line 88: \<^verbatim>\<open>tA - tB\<close>, \<open>tA\<close> being read first.\<close>

definition compareTime :: "jsval \<Rightarrow> jsval \<Rightarrow> number option" where
  "compareTime a b =
     (case timeOf a of
        None \<Rightarrow> None
      | Some tA \<Rightarrow>
          (case timeOf b of
             None \<Rightarrow> None
           | Some tB \<Rightarrow> Some (minus_number tA tB)))"

definition sortedByTime :: "jsval list \<Rightarrow> jsval list option" where
  "sortedByTime xs = arraySort compareTime xs"

text \<open>
  \<^verbatim>\<open>Array.prototype.slice(start)\<close>: a negative start counts back from the end of the array,
  and the start is then clamped to the array.
\<close>

definition slice :: "int \<Rightarrow> 'a list \<Rightarrow> 'a list" where
  "slice start xs =
     (let len = int (length xs);
          k = (if start < 0 then max (len + start) 0 else min start len)
      in drop (nat k) xs)"

text \<open>Line 96: \<^verbatim>\<open>sorted.length > 4 ? sorted.length - 7 : 0\<close>.\<close>

definition startIndex :: "nat \<Rightarrow> int" where
  "startIndex n = (if n > 4 then int n - 7 else 0)"

definition truncated :: "'a list \<Rightarrow> 'a list" where
  "truncated sorted_items = slice (startIndex (length sorted_items)) sorted_items"

text \<open>
  The rebuilding step of lines 100 to 103: an object of two numbers, the time being read
  before the volume.
\<close>

definition rebuild :: "jsval \<Rightarrow> jsval option" where
  "rebuild item =
     (case timeOf item of
        None \<Rightarrow> None
      | Some t \<Rightarrow>
          (case volumeOf item of
             None \<Rightarrow> None
           | Some v \<Rightarrow> Some (JObject [(''time'', JNumber t), (''volume'', JNumber v)])))"

text \<open>
  \<^verbatim>\<open>fixVolumeHistory\<close> (lines 38 to 106). Its argument is typed \<^verbatim>\<open>any[]\<close>, and the first line
  answers the empty list for a value that is falsy or not an array. The result is
  \<open>None\<close> when the function throws.
\<close>

definition fixVolumeHistory :: "jsval \<Rightarrow> jsval list option" where
  "fixVolumeHistory original =
     (if \<not> truthy original \<or> \<not> isArray original then Some []
      else
        (case original of
           JArray cloned \<Rightarrow>
             (case filtered cloned of
                None \<Rightarrow> None
              | Some kept \<Rightarrow>
                  (case sortedByTime kept of
                     None \<Rightarrow> None
                   | Some sorted_items \<Rightarrow> those (map rebuild (truncated sorted_items))))
         | _ \<Rightarrow> Some []))"

subsection \<open>JSON.stringify\<close>






section \<open>The store\<close>

text \<open>
  The tables of the hosted store that the two programs share. A row of \<^verbatim>\<open>News\<close> and a row
  of \<^verbatim>\<open>TokenData\<close> are keyed by \<^verbatim>\<open>onchainAddress\<close>; the columns \<^verbatim>\<open>volume\<close>, \<^verbatim>\<open>volumeHistory\<close>
  and \<^verbatim>\<open>best_comments\<close> hold whatever value was written. The generated \<^verbatim>\<open>id\<close> column is read
  by none of the functions and is left out.
\<close>

record Row =
  onchainAddress :: string

record NewsSchema = Row +
  date :: string
  title :: string
  description :: string
  imageUrl :: string
  isLaunched :: bool
  best_comments :: jsval

record TokenDataSchema = Row +
  volume :: jsval
  volumeHistory :: jsval

record Comment =
  newsId :: string
  walletAddress :: string
  content :: string
  createdAt :: string

text \<open>The writes a function sends to the store, in the order it sends them.\<close>

datatype request =
    InsertNews NewsSchema
  | InsertTokenData TokenDataSchema
  | UpdateTokenData string jsval jsval
  | UpdateBestComments string jsval

text \<open>
  The store is a collaborator that may answer any call with an error. Its state holds the
  three tables, the outcomes of the calls to come (\<open>True\<close>: the call fails; an exhausted
  list: no call fails any more) and the writes sent so far.
\<close>

record Supabase =
  News :: "NewsSchema list"
  TokenData :: "TokenDataSchema list"
  Comments :: "Comment list"
  faults :: "bool list"
  issued :: "request list"

text \<open>One call of the store: whether it fails, and the store with that outcome consumed.\<close>

definition call :: "Supabase \<Rightarrow> bool \<times> Supabase" where
  "call db = (case faults db of [] \<Rightarrow> (False, db) | f # fs \<Rightarrow> (f, db\<lparr>faults := fs\<rparr>))"

text \<open>The answer \<^verbatim>\<open>{ data, error }\<close> of a query.\<close>

datatype 'a response = Data 'a | Error

text \<open>\<^verbatim>\<open>maybeSingle()\<close>: no row, one row, or an error when several rows match.\<close>

definition maybeSingle :: "'a list \<Rightarrow> 'a option response" where
  "maybeSingle rows = (case rows of [] \<Rightarrow> Data None | [r] \<Rightarrow> Data (Some r) | _ \<Rightarrow> Error)"

definition send :: "request \<Rightarrow> Supabase \<Rightarrow> Supabase" where
  "send r db = db\<lparr>issued := issued db @ [r]\<rparr>"

text \<open>\<^verbatim>\<open>toLowerCase\<close>, on the ASCII letters an address is written with.\<close>

definition lowerChar :: "char \<Rightarrow> char" where
  "lowerChar c =
     (case map_of (zip ''ABCDEFGHIJKLMNOPQRSTUVWXYZ'' ''abcdefghijklmnopqrstuvwxyz'') c of
        Some l \<Rightarrow> l
      | None \<Rightarrow> c)"

definition toLowerCase :: "string \<Rightarrow> string" where
  "toLowerCase s = map lowerChar s"

section \<open>The indexer: main.ts\<close>

subsection \<open>SaleCreated\<close>

text \<open>
  \<^verbatim>\<open>insertNewsOnSaleCreated\<close> (lines 127 to 172). The column \<^verbatim>\<open>best_comments\<close> is not among
  the inserted fields and starts as null.
\<close>

definition insertNewsOnSaleCreated ::
  "string \<Rightarrow> number \<Rightarrow> string \<Rightarrow> string \<Rightarrow> string \<Rightarrow> Supabase \<Rightarrow> Supabase" where
  "insertNewsOnSaleCreated saleContractAddress blockTimestampMs name descr logoUrl db =
     (let addressLower = toLowerCase saleContractAddress;
          (fetchError, db1) = call db
      in if fetchError then db1
         else
           (case maybeSingle (filter (\<lambda>r. onchainAddress r = addressLower) (News db1)) of
              Error \<Rightarrow> db1
            | Data (Some existing) \<Rightarrow> db1
            | Data None \<Rightarrow>
                (let row = \<lparr>onchainAddress = addressLower,
                             date = numberToString blockTimestampMs,
                             title = name,
                             description = descr,
                             imageUrl = logoUrl,
                             isLaunched = False,
                             best_comments = JNull\<rparr>;
                     (insertError, db2) = call (send (InsertNews row) db1)
                 in if insertError then db2 else db2\<lparr>News := News db2 @ [row]\<rparr>)))"

text \<open>\<^verbatim>\<open>insertTokenDataOnSaleCreated\<close> (lines 258 to 296).\<close>

definition insertTokenDataOnSaleCreated :: "string \<Rightarrow> Supabase \<Rightarrow> Supabase" where
  "insertTokenDataOnSaleCreated saleContractAddress db =
     (let addressLower = toLowerCase saleContractAddress;
          (fetchError, db1) = call db
      in if fetchError then db1
         else
           (case maybeSingle (filter (\<lambda>r. onchainAddress r = addressLower) (TokenData db1)) of
              Error \<Rightarrow> db1
            | Data (Some existing) \<Rightarrow> db1
            | Data None \<Rightarrow>
                (let row = \<lparr>onchainAddress = addressLower,
                             volume = JNumber (Fin 0),
                             volumeHistory = JArray []\<rparr>;
                     (insertError, db2) = call (send (InsertTokenData row) db1)
                 in if insertError then db2 else db2\<lparr>TokenData := TokenData db2 @ [row]\<rparr>)))"

text \<open>
  The handler of the \<^verbatim>\<open>SaleCreated\<close> event (lines 507 to 533): the two insertions, one after
  the other.
\<close>

definition onSaleCreated ::
  "string \<Rightarrow> number \<Rightarrow> string \<Rightarrow> string \<Rightarrow> string \<Rightarrow> Supabase \<Rightarrow> Supabase" where
  "onSaleCreated saleContractAddress blockTimestampMs name descr logoUrl db =
     insertTokenDataOnSaleCreated saleContractAddress
       (insertNewsOnSaleCreated saleContractAddress blockTimestampMs name descr logoUrl db)"

subsection \<open>TokensBought and TokensSold\<close>

text \<open>
  \<^verbatim>\<open>ethers.utils.formatEther\<close> on an unsigned amount of wei: the whole part, a decimal point
  and the 18 fractional digits without their trailing zeros, of which one digit at least
  is kept.
\<close>

definition formatEther :: "nat \<Rightarrow> string" where
  "formatEther wei =
     (let fraction = natToString (wei mod 10 ^ 18);
          padded = replicate (18 - length fraction) CHR ''0'' @ fraction;
          stripped = rev (dropWhile (\<lambda>c. c = CHR ''0'') (rev padded));
          whole = natToString (wei div 10 ^ 18)
      in whole @ ''.'' @ (if stripped = [] then ''0'' else stripped))"

text \<open>
  \<^verbatim>\<open>updateTokenDataVolume\<close> (lines 320 to 384). The volume is kept as the text that
  \<^verbatim>\<open>formatEther\<close> returns. \<^verbatim>\<open>oldHistory.push\<close> throws when the stored history is neither
  missing nor an array; the \<^verbatim>\<open>catch\<close> of line 381 then leaves the store as it is.
\<close>

definition updateTokenDataVolume :: "string \<Rightarrow> nat \<Rightarrow> number \<Rightarrow> Supabase \<Rightarrow> Supabase" where
  "updateTokenDataVolume saleContractAddress totalRaised blockTimestampMs db =
     (let addressLower = toLowerCase saleContractAddress;
          newVolumeEthString = formatEther totalRaised;
          sample = JObject [(''time'', JNumber blockTimestampMs),
                            (''volume'', JString newVolumeEthString)];
          (fetchError, db1) = call db
      in if fetchError then db1
         else
           (case maybeSingle (filter (\<lambda>r. onchainAddress r = addressLower) (TokenData db1)) of
              Error \<Rightarrow> db1
            | Data None \<Rightarrow>
                (let row = \<lparr>onchainAddress = addressLower,
                             volume = JString newVolumeEthString,
                             volumeHistory = JArray [sample]\<rparr>;
                     (insertError, db2) = call (send (InsertTokenData row) db1)
                 in if insertError then db2 else db2\<lparr>TokenData := TokenData db2 @ [row]\<rparr>)
            | Data (Some existing) \<Rightarrow>
                (case (if looseNull (volumeHistory existing) then JArray []
                       else volumeHistory existing) of
                   JArray oldHistory \<Rightarrow>
                     (let newHistory = JArray (oldHistory @ [sample]);
                          (updateError, db2) =
                            call (send (UpdateTokenData addressLower
                                          (JString newVolumeEthString) newHistory) db1)
                      in if updateError then db2
                         else db2\<lparr>TokenData :=
                                map (\<lambda>r. if onchainAddress r = addressLower
                                          then r\<lparr>volume := JString newVolumeEthString,
                                                 volumeHistory := newHistory\<rparr>
                                          else r)
                                  (TokenData db2)\<rparr>)
                 | _ \<Rightarrow> db1)))"

subsection \<open>The best comment\<close>

text \<open>
  \<^verbatim>\<open>getBestComment\<close> (lines 609 to 641). The contract's \<^verbatim>\<open>tokenBalances\<close> is a parameter: it
  gives the balance of a wallet, an unsigned integer, or \<open>None\<close> when the call throws.
  \<^verbatim>\<open>new Date(c.createdAt).getTime()\<close> is a parameter too: a number of milliseconds, or NaN
  for a text that is no date. One step of the loop takes the best comment and the best
  balance so far.
\<close>

definition greater :: "number \<Rightarrow> number \<Rightarrow> bool" where
  "greater a b = positive (minus_number a b)"

definition bestCommentStep ::
  "(string \<Rightarrow> number) \<Rightarrow> (string \<Rightarrow> nat option) \<Rightarrow> Comment option \<times> nat \<Rightarrow> Comment
     \<Rightarrow> Comment option \<times> nat" where
  "bestCommentStep getTime tokenBalances st comment =
     (case st of (bestComment, bestBalance) \<Rightarrow>
        (case tokenBalances (walletAddress comment) of
           None \<Rightarrow> (bestComment, bestBalance)
         | Some balanceBN \<Rightarrow>
             if balanceBN > bestBalance then (Some comment, balanceBN)
             else if balanceBN = bestBalance \<and> bestComment \<noteq> None then
               (if greater (getTime (createdAt comment)) (getTime (createdAt (the bestComment)))
                then (Some comment, bestBalance)
                else (bestComment, bestBalance))
             else (bestComment, bestBalance)))"

definition getBestComment ::
  "(string \<Rightarrow> number) \<Rightarrow> (string \<Rightarrow> nat option) \<Rightarrow> Comment list \<Rightarrow> Comment option" where
  "getBestComment getTime tokenBalances allComments =
     fst (foldl (bestCommentStep getTime tokenBalances) (None, 0) allComments)"

text \<open>
  The handler of an insertion into \<^verbatim>\<open>Comments\<close> (lines 657 to 734). The comments of the
  news item are asked of the store in descending order of \<^verbatim>\<open>createdAt\<close>. The chain is a
  parameter: the balances of the sale contract at an address. The last update selects
  the row by \<^verbatim>\<open>newComment.newsId\<close> as it was received.
\<close>

definition listenToSupabaseComments ::
  "(string \<Rightarrow> number) \<Rightarrow> (string \<Rightarrow> string \<Rightarrow> nat option) \<Rightarrow> Comment \<Rightarrow> Supabase
     \<Rightarrow> Supabase" where
  "listenToSupabaseComments getTime chain newComment db =
     (let (fetchNewsError, db1) = call db
      in if fetchNewsError then db1
         else
           (case maybeSingle
                   (filter (\<lambda>r. onchainAddress r = toLowerCase (newsId newComment)) (News db1)) of
              Error \<Rightarrow> db1
            | Data None \<Rightarrow> db1
            | Data (Some existingNews) \<Rightarrow>
                (let (commentsError, db2) = call db1;
                     allComments =
                       sortBy (\<lambda>a b. minus_number (getTime (createdAt b)) (getTime (createdAt a)))
                         (filter (\<lambda>c. newsId c = toLowerCase (newsId newComment)) (Comments db2))
                 in if commentsError then db2
                    else if allComments = [] then db2
                    else
                      (case getBestComment getTime (chain (newsId newComment)) allComments of
                         None \<Rightarrow> db2
                       | Some bestComment \<Rightarrow>
                           (let bestCommentsPayload =
                                  JArray [JObject
                                    [(''content'', JString (content bestComment)),
                                     (''walletAddress'', JString (walletAddress bestComment)),
                                     (''position'', JString ''default'')]];
                                (updateError, db3) =
                                  call (send (UpdateBestComments (newsId newComment)
                                                bestCommentsPayload) db2)
                            in if updateError then db3
                               else db3\<lparr>News :=
                                      map (\<lambda>r. if onchainAddress r = newsId newComment
                                                then r\<lparr>best_comments := bestCommentsPayload\<rparr>
                                                else r)
                                        (News db3)\<rparr>)))))"

section \<open>The sweep: checkAndFixAllTokenData\<close>





section \<open>The specification's wording\<close>


text \<open>
  The second is its invariant of a sample of a history: a volume that is a finite number
  and not negative, a time that is a finite integer.
\<close>

definition spec_sample_ok :: "jsval \<Rightarrow> bool" where
  "spec_sample_ok item =
     (case getProp item ''volume'' of
        JNumber (Fin v) \<Rightarrow>
          0 \<le> v \<and> (case getProp item ''time'' of
                      JNumber (Fin t) \<Rightarrow> of_int \<lfloor>t\<rfloor> = t
                    | _ \<Rightarrow> False)
      | _ \<Rightarrow> False)"

section \<open>Auxiliary notions\<close>

text \<open>
  Three functions for stating lemmas about items whose time and volume can be read: the
  time and the volume as numbers, the comparison of two times, and the rebuilt sample.
  Where \<open>timeOf\<close> and \<open>volumeOf\<close> return, they return these numbers. No function of the
  model above uses them.
\<close>

definition timeNumber :: "jsval \<Rightarrow> number" where
  "timeNumber item = (case timeOf item of Some t \<Rightarrow> t | None \<Rightarrow> NaN)"

definition volumeNumber :: "jsval \<Rightarrow> number" where
  "volumeNumber item = (case volumeOf item of Some v \<Rightarrow> v | None \<Rightarrow> NaN)"

definition compareNumber :: "jsval \<Rightarrow> jsval \<Rightarrow> number" where
  "compareNumber a b = minus_number (timeNumber a) (timeNumber b)"

definition rebuilt :: "jsval \<Rightarrow> jsval" where
  "rebuilt item =
     JObject [(''time'', JNumber (timeNumber item)), (''volume'', JNumber (volumeNumber item))]"


text \<open>A sample with a finite numeric time, for the examples below.\<close>

abbreviation sample :: "rat \<Rightarrow> jsval \<Rightarrow> jsval" where
  "sample t v \<equiv> JObject [(''time'', JNumber (Fin t)), (''volume'', v)]"

abbreviation fiveSamples :: "jsval list" where
  "fiveSamples \<equiv>
     [sample 1 (JNumber (Fin 10)), sample 2 (JNumber (Fin 20)), sample 3 (JNumber (Fin 30)),
      sample 4 (JNumber (Fin 40)), sample 5 (JNumber (Fin 50))]"

abbreviation eightSamples :: "jsval list" where
  "eightSamples \<equiv>
     [sample 8 (JNumber (Fin 80)), sample 1 (JNumber (Fin 10)), sample 2 (JNumber (Fin 20)),
      sample 3 (JNumber (Fin 30)), sample 4 (JNumber (Fin 40)), sample 5 (JNumber (Fin 50)),
      sample 6 (JNumber (Fin 60)), sample 7 (JNumber (Fin 70))]"








abbreviation emptyStore :: "Supabase" where
  "emptyStore \<equiv> \<lparr>News = [], TokenData = [], Comments = [], faults = [], issued = []\<rparr>"

text \<open>
  Two comments on one news item, five minutes apart, the reading of their dates, and the
  row of that news item.
\<close>

abbreviation clock :: "string \<Rightarrow> number" where
  "clock s \<equiv>
     (if s = ''2025-01-01T10:00:00Z'' then Fin 1735725600000
      else if s = ''2025-01-01T10:05:00Z'' then Fin 1735725900000
      else NaN)"

abbreviation earlyComment :: "Comment" where
  "earlyComment \<equiv> \<lparr>newsId = ''0xab'', walletAddress = ''0x01'', content = ''first'',
                    createdAt = ''2025-01-01T10:00:00Z''\<rparr>"

abbreviation lateComment :: "Comment" where
  "lateComment \<equiv> \<lparr>newsId = ''0xab'', walletAddress = ''0x02'', content = ''second'',
                   createdAt = ''2025-01-01T10:05:00Z''\<rparr>"

abbreviation newsRow :: "NewsSchema" where
  "newsRow \<equiv> \<lparr>onchainAddress = ''0xab'', date = ''1735725000000'', title = ''t'',
               description = ''d'', imageUrl = ''u'', isLaunched = False,
               best_comments = JNull\<rparr>"

section \<open>Properties of the repair pass\<close>

subsection \<open>The retention step\<close>

lemma truncated_small: "length xs \<le> 4 \<Longrightarrow> truncated xs = xs"
  by (simp add: truncated_def slice_def startIndex_def)

lemma truncated_large: "7 \<le> length xs \<Longrightarrow> truncated xs = drop (length xs - 7) xs"
  by (simp add: truncated_def slice_def startIndex_def nat_diff_distrib)

lemma truncated_five: "length xs = 5 \<Longrightarrow> truncated xs = drop 3 xs"
  by (simp add: truncated_def slice_def startIndex_def)

lemma truncated_six: "length xs = 6 \<Longrightarrow> truncated xs = drop 5 xs"
  by (simp add: truncated_def slice_def startIndex_def)

lemma length_cases:
  obtains "length xs \<le> 4" | "length xs = 5" | "length xs = 6" | "7 \<le> length xs"
  by linarith

lemma truncated_drop:
  "truncated xs =
     drop (if length xs \<le> 4 then 0
           else if 7 \<le> length xs then length xs - 7
           else 2 * length xs - 7) xs"
proof (cases xs rule: length_cases)
  case 1 then show ?thesis by (simp add: truncated_small)
next
  case 2 then show ?thesis by (simp add: truncated_five)
next
  case 3 then show ?thesis by (simp add: truncated_six)
next
  case 4 then show ?thesis by (simp add: truncated_large)
qed




lemma set_truncated: "set (truncated xs) \<subseteq> set xs"
  unfolding truncated_drop by (rule set_drop_subset)

subsection \<open>Steps that throw and steps that return\<close>

lemma filterArray_None: "filterArray p xs = None \<longleftrightarrow> (\<exists>x\<in>set xs. p x = None)"
  by (induction xs) (auto split: option.splits)

lemma filterArray_returns:
  "\<forall>x\<in>set xs. p x \<noteq> None \<Longrightarrow> filterArray p xs = Some (filter (\<lambda>x. p x = Some True) xs)"
  by (induction xs) auto

lemma filterArray_Some:
  "filterArray p xs = Some ys \<longleftrightarrow>
     (\<forall>x\<in>set xs. p x \<noteq> None) \<and> ys = filter (\<lambda>x. p x = Some True) xs"
proof (cases "\<exists>x\<in>set xs. p x = None")
  case True
  then have "filterArray p xs = None" by (simp add: filterArray_None)
  with True show ?thesis by auto
next
  case False
  then have "filterArray p xs = Some (filter (\<lambda>x. p x = Some True) xs)"
    by (intro filterArray_returns) simp
  with False show ?thesis by auto
qed

lemma set_insertBy: "set (insertBy cmp x ys) = insert x (set ys)"
  by (induction ys) auto

lemma set_sortBy: "set (sortBy cmp xs) = set xs"
  unfolding sortBy_def by (induction xs) (simp_all add: set_insertBy)

lemma arrayInsert_returns:
  "\<forall>y\<in>set ys. cmp x y = Some (c x y) \<Longrightarrow> arrayInsert cmp x ys = Some (insertBy c x ys)"
  by (induction ys) simp_all

lemma arraySort_returns:
  "\<forall>x\<in>set xs. \<forall>y\<in>set xs. cmp x y = Some (c x y) \<Longrightarrow>
   arraySort cmp xs = Some (sortBy c xs)"
proof (induction xs)
  case Nil
  then show ?case by (simp add: sortBy_def)
next
  case (Cons x xs)
  then have "arraySort cmp xs = Some (sortBy c xs)" by simp
  moreover have "arrayInsert cmp x (sortBy c xs) = Some (insertBy c x (sortBy c xs))"
    using Cons.prems by (intro arrayInsert_returns) (simp add: set_sortBy)
  ultimately show ?case by (simp add: sortBy_def)
qed

lemma those_map_returns:
  "\<forall>x\<in>set xs. f x = Some (g x) \<Longrightarrow> those (map f xs) = Some (map g xs)"
  by (induction xs) simp_all

lemma keepItem_True_iff:
  "keepItem item = Some True \<longleftrightarrow>
     truthy item
     \<and> ((\<exists>v. getProp item ''volume'' = JNumber v)
        \<or> (\<exists>s. getProp item ''volume'' = JString s \<and> dotsCount s \<le> 1
                \<and> \<not> isNaN (parseFloat s)))
     \<and> ((\<exists>t. getProp item ''time'' = JNumber t)
        \<or> (\<exists>s. ToString (getProp item ''time'') = Some s \<and> \<not> isNaN (parseFloat s)))"
  by (cases "getProp item ''volume''"; cases "getProp item ''time''")
     (auto simp: keepItem_def timeOk_def split: option.splits)


lemma kept_time: "keepItem y = Some True \<Longrightarrow> timeOf y = Some (timeNumber y)"
  by (cases "getProp y ''time''") (auto simp: keepItem_True_iff timeOf_def timeNumber_def)

lemma kept_volume: "keepItem y = Some True \<Longrightarrow> volumeOf y = Some (volumeNumber y)"
  by (cases "getProp y ''volume''") (auto simp: keepItem_True_iff volumeOf_def volumeNumber_def)

lemma kept_rebuild: "keepItem y = Some True \<Longrightarrow> rebuild y = Some (rebuilt y)"
  by (simp add: rebuild_def rebuilt_def kept_time kept_volume)

lemma kept_compare:
  "keepItem a = Some True \<Longrightarrow> keepItem b = Some True \<Longrightarrow>
   compareTime a b = Some (compareNumber a b)"
  by (simp add: compareTime_def compareNumber_def kept_time)

lemma fixVolumeHistory_kept:
  assumes "filtered h = Some kept"
  shows "fixVolumeHistory (JArray h)
           = Some (map rebuilt (truncated (sortBy compareNumber kept)))"
proof -
  from assms have k: "\<forall>y\<in>set kept. keepItem y = Some True"
    by (auto simp: filtered_def filterArray_Some)
  then have s: "sortedByTime kept = Some (sortBy compareNumber kept)"
    unfolding sortedByTime_def by (intro arraySort_returns) (simp add: kept_compare)
  have "\<forall>y\<in>set (truncated (sortBy compareNumber kept)). rebuild y = Some (rebuilt y)"
    using k set_truncated [of "sortBy compareNumber kept"]
    by (auto simp: set_sortBy kept_rebuild)
  then have r: "those (map rebuild (truncated (sortBy compareNumber kept)))
      = Some (map rebuilt (truncated (sortBy compareNumber kept)))"
    by (rule those_map_returns)
  show ?thesis
    by (simp add: fixVolumeHistory_def assms s r)
qed

lemma fixVolumeHistory_throws:
  "fixVolumeHistory (JArray h) = None \<longleftrightarrow> (\<exists>item\<in>set h. keepItem item = None)"
proof (cases "filtered h")
  case None
  then show ?thesis
    by (simp add: fixVolumeHistory_def) (simp add: filtered_def filterArray_None)
next
  case (Some kept)
  then have "\<forall>item\<in>set h. keepItem item \<noteq> None"
    by (simp add: filtered_def filterArray_Some)
  with fixVolumeHistory_kept [OF Some] show ?thesis by auto
qed

subsection \<open>Five samples\<close>

text \<open>
  C1: the code breaks the claim at five valid samples. Line 96 gives the start index
  \<open>5 - 7 = -2\<close>, nothing clamps it to 0, and \<^verbatim>\<open>slice\<close> counts a negative start back from
  the end: the last two samples are retained, where the claim retains all five (and the
  comments of lines 35, 94 and 111 the latest four).
\<close>

theorem retention_five_samples:
  "filtered fiveSamples = Some fiveSamples
   \<and> sortedByTime fiveSamples = Some fiveSamples
   \<and> startIndex 5 = - 2
   \<and> truncated fiveSamples = [sample 4 (JNumber (Fin 40)), sample 5 (JNumber (Fin 50))]
   \<and> fixVolumeHistory (JArray fiveSamples)
       = Some [sample 4 (JNumber (Fin 40)), sample 5 (JNumber (Fin 50))]"
  by code_simp

theorem retention_five_samples_witness:
  "length (the (fixVolumeHistory (JArray fiveSamples))) = 2
   \<and> fixVolumeHistory (JArray fiveSamples) \<noteq> Some fiveSamples"
  using retention_five_samples by simp

subsection \<open>Values that are not arrays\<close>

text \<open>
  C10: for an input that is null, undefined or any other value that is not an array,
  \<^verbatim>\<open>fixVolumeHistory\<close> returns the empty list; it does not throw.
\<close>

theorem fixVolumeHistory_not_array:
  "\<not> isArray original \<Longrightarrow> fixVolumeHistory original = Some []"
  by (simp add: fixVolumeHistory_def)

theorem fixVolumeHistory_not_array_witness:
  "fixVolumeHistory JNull = Some []
   \<and> fixVolumeHistory JUndefined = Some []
   \<and> fixVolumeHistory (JString ''[]'') = Some []
   \<and> fixVolumeHistory (JObject [(''time'', JNumber (Fin 1)), (''volume'', JNumber (Fin 2))])
       = Some []"
  using fixVolumeHistory_not_array [of JNull] fixVolumeHistory_not_array [of JUndefined]
    fixVolumeHistory_not_array [of "JString ''[]''"]
    fixVolumeHistory_not_array
      [of "JObject [(''time'', JNumber (Fin 1)), (''volume'', JNumber (Fin 2))]"]
  by simp

subsection \<open>The filter\<close>




subsection \<open>Sorting, and repairing what is repaired\<close>

lemma positive_minus_asym: "positive (minus_number a b) \<Longrightarrow> \<not> positive (minus_number b a)"
  by (cases a; cases b) auto
















lemma fixVolumeHistory_returns:
  assumes "fixVolumeHistory (JArray h) = Some out"
  shows "\<exists>kept. filtered h = Some kept
           \<and> out = map rebuilt (truncated (sortBy compareNumber kept))"
proof (cases "filtered h")
  case None
  with assms show ?thesis by (simp add: fixVolumeHistory_def)
next
  case (Some kept)
  with assms fixVolumeHistory_kept [OF Some] show ?thesis by simp
qed


subsection \<open>What a retained sample holds\<close>

lemma kept_time_NaN:
  "keepItem y = Some True \<Longrightarrow> isNaN (timeNumber y) \<Longrightarrow> getProp y ''time'' = JNumber NaN"
  by (cases "getProp y ''time''")
     (auto simp: keepItem_True_iff timeNumber_def timeOf_def elim: isNaN.elims)

lemma kept_volume_NaN:
  "keepItem y = Some True \<Longrightarrow> isNaN (volumeNumber y) \<Longrightarrow> getProp y ''volume'' = JNumber NaN"
  by (cases "getProp y ''volume''")
     (auto simp: keepItem_True_iff volumeNumber_def volumeOf_def elim: isNaN.elims)

text \<open>
  C4, as the specification states it, fails: the code tests neither the sign of a volume
  nor that a number is finite or an integer. A sample of time 1.5 and volume -3 is
  retained as it is, and the texts \<^verbatim>\<open>"Infinity"\<close> and \<^verbatim>\<open>"-Infinity"\<close> are retained as the
  two infinities.
\<close>

theorem numbers_counterexample:
  "fixVolumeHistory (JArray [sample (3/2) (JNumber (Fin (- 3)))])
     = Some [sample (3/2) (JNumber (Fin (- 3)))]
   \<and> \<not> spec_sample_ok (sample (3/2) (JNumber (Fin (- 3))))
   \<and> fixVolumeHistory
        (JArray [JObject [(''time'', JString ''Infinity''), (''volume'', JString ''-Infinity'')]])
      = Some [JObject [(''time'', JNumber PosInfinity), (''volume'', JNumber NegInfinity)]]
   \<and> \<not> spec_sample_ok
          (JObject [(''time'', JNumber PosInfinity), (''volume'', JNumber NegInfinity)])"
  by code_simp

text \<open>
  C4, amended: when \<^verbatim>\<open>fixVolumeHistory\<close> returns, every sample of its output is the
  rebuilding of a sample of the input that the filter kept: an object of exactly the time
  and the volume of that sample as numbers. Either number is NaN only where the input
  sample held the number NaN itself. Nothing bounds the sign of the volume, and nothing
  makes the numbers finite or the time an integer.
\<close>

theorem fixVolumeHistory_numbers:
  assumes "fixVolumeHistory (JArray h) = Some out"
    and "x \<in> set out"
  shows "\<exists>y\<in>set h. \<exists>t v.
           keepItem y = Some True
           \<and> timeOf y = Some t \<and> volumeOf y = Some v
           \<and> rebuild y = Some x
           \<and> x = JObject [(''time'', JNumber t), (''volume'', JNumber v)]
           \<and> (isNaN t \<longrightarrow> getProp y ''time'' = JNumber NaN)
           \<and> (isNaN v \<longrightarrow> getProp y ''volume'' = JNumber NaN)"
proof -
  from fixVolumeHistory_returns [OF assms(1)]
  obtain kept where f: "filtered h = Some kept"
    and o: "out = map rebuilt (truncated (sortBy compareNumber kept))" by blast
  from assms(2) o obtain y where y: "y \<in> set (truncated (sortBy compareNumber kept))"
    and x: "x = rebuilt y" by auto
  have "y \<in> set (sortBy compareNumber kept)"
    by (rule subsetD [OF set_truncated y])
  then have "y \<in> set kept" by (simp add: set_sortBy)
  with f have m: "y \<in> set h" and k: "keepItem y = Some True"
    by (simp_all add: filtered_def filterArray_Some)
  have "keepItem y = Some True
        \<and> timeOf y = Some (timeNumber y) \<and> volumeOf y = Some (volumeNumber y)
        \<and> rebuild y = Some x
        \<and> x = JObject [(''time'', JNumber (timeNumber y)), (''volume'', JNumber (volumeNumber y))]
        \<and> (isNaN (timeNumber y) \<longrightarrow> getProp y ''time'' = JNumber NaN)
        \<and> (isNaN (volumeNumber y) \<longrightarrow> getProp y ''volume'' = JNumber NaN)"
    using k x kept_time [OF k] kept_volume [OF k] kept_rebuild [OF k]
      kept_time_NaN [OF k] kept_volume_NaN [OF k]
    by (simp add: rebuilt_def)
  then have e: "\<exists>t v. keepItem y = Some True
           \<and> timeOf y = Some t \<and> volumeOf y = Some v
           \<and> rebuild y = Some x
           \<and> x = JObject [(''time'', JNumber t), (''volume'', JNumber v)]
           \<and> (isNaN t \<longrightarrow> getProp y ''time'' = JNumber NaN)
           \<and> (isNaN v \<longrightarrow> getProp y ''volume'' = JNumber NaN)"
    by (intro exI)
  show ?thesis by (rule bexI [where x = y]) (rule e, rule m)
qed

theorem fixVolumeHistory_numbers_witness:
  "fixVolumeHistory (JArray [sample 1 (JString ''0.5'')]) = Some [sample 1 (JNumber (Fin (1/2)))]
   \<and> (\<exists>y\<in>set [sample 1 (JString ''0.5'')]. \<exists>t v.
           keepItem y = Some True
           \<and> timeOf y = Some t \<and> volumeOf y = Some v
           \<and> rebuild y = Some (sample 1 (JNumber (Fin (1/2))))
           \<and> sample 1 (JNumber (Fin (1/2))) = JObject [(''time'', JNumber t), (''volume'', JNumber v)]
           \<and> (isNaN t \<longrightarrow> getProp y ''time'' = JNumber NaN)
           \<and> (isNaN v \<longrightarrow> getProp y ''volume'' = JNumber NaN))"
proof -
  have m: "fixVolumeHistory (JArray [sample 1 (JString ''0.5'')])
             = Some [sample 1 (JNumber (Fin (1/2)))]"
    by code_simp
  have n: "sample 1 (JNumber (Fin (1/2))) \<in> set [sample 1 (JNumber (Fin (1/2)))]"
    by simp
  show ?thesis
    by (rule conjI, rule m, rule fixVolumeHistory_numbers [OF m n])
qed

section \<open>Properties of the sweep\<close>


lemma faults_send: "faults (send r db) = faults db"
  by (simp add: send_def)






















section \<open>Properties of the indexer\<close>

subsection \<open>SaleCreated, twice\<close>

lemma at_most_one:
  "length xs \<le> 1 \<Longrightarrow> xs = [] \<or> (\<exists>r. xs = [r])"
  by (cases xs) (auto simp: length_Suc_conv)

lemma insertNews_existing:
  "faults db = [] \<Longrightarrow>
   filter (\<lambda>r. onchainAddress r = toLowerCase a) (News db) = [r] \<Longrightarrow>
   insertNewsOnSaleCreated a ts n d l db = db"
  by (simp add: insertNewsOnSaleCreated_def call_def maybeSingle_def)

lemma insertNews_fresh:
  "faults db = [] \<Longrightarrow>
   filter (\<lambda>r. onchainAddress r = toLowerCase a) (News db) = [] \<Longrightarrow>
   insertNewsOnSaleCreated a ts n d l db =
     db\<lparr>News := News db @ [\<lparr>onchainAddress = toLowerCase a, date = numberToString ts,
                               title = n, description = d, imageUrl = l,
                               isLaunched = False, best_comments = JNull\<rparr>],
        issued := issued db @ [InsertNews \<lparr>onchainAddress = toLowerCase a,
                               date = numberToString ts,
                               title = n, description = d, imageUrl = l,
                               isLaunched = False, best_comments = JNull\<rparr>]\<rparr>"
  by (simp add: insertNewsOnSaleCreated_def call_def maybeSingle_def send_def Let_def)

lemma insertTokenData_existing:
  "faults db = [] \<Longrightarrow>
   filter (\<lambda>r. onchainAddress r = toLowerCase a) (TokenData db) = [r] \<Longrightarrow>
   insertTokenDataOnSaleCreated a db = db"
  by (simp add: insertTokenDataOnSaleCreated_def call_def maybeSingle_def)

lemma insertTokenData_fresh:
  "faults db = [] \<Longrightarrow>
   filter (\<lambda>r. onchainAddress r = toLowerCase a) (TokenData db) = [] \<Longrightarrow>
   insertTokenDataOnSaleCreated a db =
     db\<lparr>TokenData := TokenData db @ [\<lparr>onchainAddress = toLowerCase a,
                                        volume = JNumber (Fin 0), volumeHistory = JArray []\<rparr>],
        issued := issued db @ [InsertTokenData \<lparr>onchainAddress = toLowerCase a,
                                        volume = JNumber (Fin 0), volumeHistory = JArray []\<rparr>]\<rparr>"
  by (simp add: insertTokenDataOnSaleCreated_def call_def maybeSingle_def send_def Let_def)

lemma insertNews_once:
  assumes f: "faults db = []"
    and n: "length (filter (\<lambda>r. onchainAddress r = toLowerCase a) (News db)) \<le> 1"
  shows "faults (insertNewsOnSaleCreated a ts n d l db) = []
         \<and> TokenData (insertNewsOnSaleCreated a ts n d l db) = TokenData db
         \<and> (\<exists>r. filter (\<lambda>r. onchainAddress r = toLowerCase a)
                   (News (insertNewsOnSaleCreated a ts n d l db)) = [r])"
  using at_most_one [OF n]
proof
  assume e: "filter (\<lambda>r. onchainAddress r = toLowerCase a) (News db) = []"
  show ?thesis
    by (simp add: insertNews_fresh [OF f e] f e)
next
  assume "\<exists>r. filter (\<lambda>r. onchainAddress r = toLowerCase a) (News db) = [r]"
  then obtain r where e: "filter (\<lambda>r. onchainAddress r = toLowerCase a) (News db) = [r]" ..
  show ?thesis
    by (simp add: insertNews_existing [OF f e] f e)
qed

lemma insertTokenData_once:
  assumes f: "faults db = []"
    and n: "length (filter (\<lambda>r. onchainAddress r = toLowerCase a) (TokenData db)) \<le> 1"
  shows "faults (insertTokenDataOnSaleCreated a db) = []
         \<and> News (insertTokenDataOnSaleCreated a db) = News db
         \<and> (\<exists>r. filter (\<lambda>r. onchainAddress r = toLowerCase a)
                   (TokenData (insertTokenDataOnSaleCreated a db)) = [r])"
  using at_most_one [OF n]
proof
  assume e: "filter (\<lambda>r. onchainAddress r = toLowerCase a) (TokenData db) = []"
  show ?thesis
    by (simp add: insertTokenData_fresh [OF f e] f e)
next
  assume "\<exists>r. filter (\<lambda>r. onchainAddress r = toLowerCase a) (TokenData db) = [r]"
  then obtain r where e: "filter (\<lambda>r. onchainAddress r = toLowerCase a) (TokenData db) = [r]" ..
  show ?thesis
    by (simp add: insertTokenData_existing [OF f e] f e)
qed

text \<open>
  C9: against a store that answers no call with an error and holds at most one row of the
  address in each table, two invocations of the \<^verbatim>\<open>SaleCreated\<close> handler with one address
  leave exactly one \<^verbatim>\<open>News\<close> row and one \<^verbatim>\<open>TokenData\<close> row of its lower-case form. The second
  invocation reads the rows that exist and leaves the store as the first one left it: it
  sends no insert.
\<close>

theorem onSaleCreated_twice:
  assumes f: "faults db = []"
    and n: "length (filter (\<lambda>r. onchainAddress r = toLowerCase a) (News db)) \<le> 1"
    and t: "length (filter (\<lambda>r. onchainAddress r = toLowerCase a) (TokenData db)) \<le> 1"
  shows "length (filter (\<lambda>r. onchainAddress r = toLowerCase a)
                   (News (onSaleCreated a ts2 n2 d2 l2 (onSaleCreated a ts1 n1 d1 l1 db)))) = 1
         \<and> length (filter (\<lambda>r. onchainAddress r = toLowerCase a)
                   (TokenData (onSaleCreated a ts2 n2 d2 l2 (onSaleCreated a ts1 n1 d1 l1 db)))) = 1
         \<and> onSaleCreated a ts2 n2 d2 l2 (onSaleCreated a ts1 n1 d1 l1 db)
             = onSaleCreated a ts1 n1 d1 l1 db"
proof -
  let ?db1 = "insertNewsOnSaleCreated a ts1 n1 d1 l1 db"
  let ?db2 = "insertTokenDataOnSaleCreated a ?db1"
  from insertNews_once [OF f n, of ts1 n1 d1 l1]
  obtain r where f1: "faults ?db1 = []" and t1: "TokenData ?db1 = TokenData db"
    and r: "filter (\<lambda>r. onchainAddress r = toLowerCase a) (News ?db1) = [r]"
    by blast
  from t t1 have "length (filter (\<lambda>r. onchainAddress r = toLowerCase a) (TokenData ?db1)) \<le> 1"
    by simp
  from insertTokenData_once [OF f1 this]
  obtain q where f2: "faults ?db2 = []" and n2: "News ?db2 = News ?db1"
    and q: "filter (\<lambda>r. onchainAddress r = toLowerCase a) (TokenData ?db2) = [q]"
    by blast
  from r n2 have r2: "filter (\<lambda>r. onchainAddress r = toLowerCase a) (News ?db2) = [r]"
    by simp
  have s1: "insertNewsOnSaleCreated a ts2 n2 d2 l2 ?db2 = ?db2"
    by (rule insertNews_existing [OF f2 r2])
  have s2: "insertTokenDataOnSaleCreated a ?db2 = ?db2"
    by (rule insertTokenData_existing [OF f2 q])
  have same: "onSaleCreated a ts2 n2 d2 l2 (onSaleCreated a ts1 n1 d1 l1 db)
             = onSaleCreated a ts1 n1 d1 l1 db"
    by (simp add: onSaleCreated_def s1 s2)
  show ?thesis
    unfolding same by (simp add: onSaleCreated_def r2 q)
qed

theorem onSaleCreated_twice_witness:
  "length (filter (\<lambda>r. onchainAddress r = ''0xab'')
             (News (onSaleCreated ''0xAB'' (Fin 2) ''n2'' ''d2'' ''l2''
                      (onSaleCreated ''0xAB'' (Fin 1) ''n1'' ''d1'' ''l1'' emptyStore)))) = 1
   \<and> onSaleCreated ''0xAB'' (Fin 2) ''n2'' ''d2'' ''l2''
         (onSaleCreated ''0xAB'' (Fin 1) ''n1'' ''d1'' ''l1'' emptyStore)
       = onSaleCreated ''0xAB'' (Fin 1) ''n1'' ''d1'' ''l1'' emptyStore
   \<and> News (onSaleCreated ''0xAB'' (Fin 1) ''n1'' ''d1'' ''l1'' emptyStore)
       = [\<lparr>onchainAddress = ''0xab'', date = ''1'', title = ''n1'', description = ''d1'',
           imageUrl = ''l1'', isLaunched = False, best_comments = JNull\<rparr>]"
proof -
  have l: "toLowerCase ''0xAB'' = ''0xab''"
    by (simp add: toLowerCase_def lowerChar_def)
  have n: "News (onSaleCreated ''0xAB'' (Fin 1) ''n1'' ''d1'' ''l1'' emptyStore)
       = [\<lparr>onchainAddress = ''0xab'', date = ''1'', title = ''n1'', description = ''d1'',
           imageUrl = ''l1'', isLaunched = False, best_comments = JNull\<rparr>]"
    by code_simp
  show ?thesis
    using onSaleCreated_twice [of emptyStore "''0xAB''" "Fin 2" "''n2''" "''d2''" "''l2''"
        "Fin 1" "''n1''" "''d1''" "''l1''"] n
    by (simp add: l)
qed

subsection \<open>Volume events on a fresh address\<close>

lemma update_fresh:
  "faults db = [] \<Longrightarrow>
   filter (\<lambda>r. onchainAddress r = toLowerCase a) (TokenData db) = [] \<Longrightarrow>
   updateTokenDataVolume a raised ts db =
     db\<lparr>TokenData := TokenData db @
            [\<lparr>onchainAddress = toLowerCase a, volume = JString (formatEther raised),
              volumeHistory = JArray [JObject [(''time'', JNumber ts),
                                               (''volume'', JString (formatEther raised))]]\<rparr>],
        issued := issued db @
            [InsertTokenData
               \<lparr>onchainAddress = toLowerCase a, volume = JString (formatEther raised),
                 volumeHistory = JArray [JObject [(''time'', JNumber ts),
                                                  (''volume'', JString (formatEther raised))]]\<rparr>]\<rparr>"
  by (simp add: updateTokenDataVolume_def call_def maybeSingle_def send_def Let_def)

lemma update_existing:
  assumes f: "faults db = []"
    and rows: "TokenData db = others @ [r]"
    and others: "\<forall>x\<in>set others. onchainAddress x \<noteq> toLowerCase a"
    and key: "onchainAddress r = toLowerCase a"
    and hist: "volumeHistory r = JArray old"
  shows "updateTokenDataVolume a raised ts db =
     db\<lparr>TokenData := others @
            [r\<lparr>volume := JString (formatEther raised),
               volumeHistory := JArray (old @ [JObject [(''time'', JNumber ts),
                                               (''volume'', JString (formatEther raised))]])\<rparr>],
        issued := issued db @
            [UpdateTokenData (toLowerCase a) (JString (formatEther raised))
               (JArray (old @ [JObject [(''time'', JNumber ts),
                                        (''volume'', JString (formatEther raised))]]))]\<rparr>"
proof -
  have 1: "filter (\<lambda>r. onchainAddress r = toLowerCase a) (TokenData db) = [r]"
    using others key by (simp add: rows)
  have 2: "map (\<lambda>x. if onchainAddress x = toLowerCase a
                     then x\<lparr>volume := JString (formatEther raised),
                           volumeHistory := JArray (old @ [JObject [(''time'', JNumber ts),
                                               (''volume'', JString (formatEther raised))]])\<rparr>
                     else x) others = others"
    using others by (simp add: map_idI)
  show ?thesis
    by (simp add: updateTokenDataVolume_def call_def maybeSingle_def send_def Let_def f 1 hist)
       (simp add: rows key 2)
qed

lemma volume_events_fold:
  assumes f: "faults db = []"
    and fresh: "\<forall>r\<in>set (TokenData db). onchainAddress r \<noteq> toLowerCase a"
    and ne: "events \<noteq> []"
  shows "faults (foldl (\<lambda>d e. updateTokenDataVolume a (fst e) (snd e) d) db events) = []
    \<and> TokenData (foldl (\<lambda>d e. updateTokenDataVolume a (fst e) (snd e) d) db events) =
       TokenData db @
         [\<lparr>onchainAddress = toLowerCase a,
           volume = JString (formatEther (fst (last events))),
           volumeHistory =
             JArray (map (\<lambda>e. JObject [(''time'', JNumber (snd e)),
                                        (''volume'', JString (formatEther (fst e)))]) events)\<rparr>]"
  using ne
proof (induction events rule: rev_nonempty_induct)
  case (single e)
  have "filter (\<lambda>r. onchainAddress r = toLowerCase a) (TokenData db) = []"
    using fresh by (simp add: filter_empty_conv)
  from update_fresh [OF f this] f show ?case by simp
next
  case (snoc e es)
  let ?d = "foldl (\<lambda>d e. updateTokenDataVolume a (fst e) (snd e) d) db es"
  from snoc.IH have fd: "faults ?d = []"
    and rows: "TokenData ?d = TokenData db @
         [\<lparr>onchainAddress = toLowerCase a,
           volume = JString (formatEther (fst (last es))),
           volumeHistory =
             JArray (map (\<lambda>e. JObject [(''time'', JNumber (snd e)),
                                        (''volume'', JString (formatEther (fst e)))]) es)\<rparr>]"
    by simp_all
  from update_existing [OF fd rows fresh, of "map (\<lambda>e. JObject [(''time'', JNumber (snd e)),
                                        (''volume'', JString (formatEther (fst e)))]) es" "fst e" "snd e"] fd
  show ?case by simp
qed

text \<open>
  C5: let a non-empty sequence of volume events be applied in order for an address of
  which the store holds no \<^verbatim>\<open>TokenData\<close> row, the store answering no call with an error.
  Then the store holds exactly one row of the address; its volume is the converted volume
  (the text of \<^verbatim>\<open>formatEther\<close>) of the last event, and its history holds one sample for
  each event, in the order of the events, each appended at the end.
\<close>

theorem volume_events_on_fresh_address:
  assumes "faults db = []"
    and "\<forall>r\<in>set (TokenData db). onchainAddress r \<noteq> toLowerCase a"
    and "events \<noteq> []"
  shows "filter (\<lambda>r. onchainAddress r = toLowerCase a)
           (TokenData (foldl (\<lambda>d e. updateTokenDataVolume a (fst e) (snd e) d) db events)) =
         [\<lparr>onchainAddress = toLowerCase a,
           volume = JString (formatEther (fst (last events))),
           volumeHistory =
             JArray (map (\<lambda>e. JObject [(''time'', JNumber (snd e)),
                                        (''volume'', JString (formatEther (fst e)))]) events)\<rparr>]"
proof -
  have "filter (\<lambda>r. onchainAddress r = toLowerCase a) (TokenData db) = []"
    using assms(2) by (simp add: filter_empty_conv)
  then show ?thesis
    by (simp add: volume_events_fold [OF assms])
qed

theorem volume_events_on_fresh_address_witness:
  "filter (\<lambda>r. onchainAddress r = ''0xab'')
     (TokenData (foldl (\<lambda>d e. updateTokenDataVolume ''0xAB'' (fst e) (snd e) d) emptyStore
                   [(1000000000000000000, Fin 1), (2500000000000000000, Fin 2)])) =
   [\<lparr>onchainAddress = ''0xab'', volume = JString ''2.5'',
     volumeHistory = JArray [sample 1 (JString ''1.0''), sample 2 (JString ''2.5'')]\<rparr>]"
proof -
  have l: "toLowerCase ''0xAB'' = ''0xab''"
    by (simp add: toLowerCase_def lowerChar_def)
  have a: "formatEther 1000000000000000000 = ''1.0''"
    by (simp add: formatEther_def natToString.simps digitChar_def)
  have b: "formatEther 2500000000000000000 = ''2.5''"
    by (simp add: formatEther_def natToString.simps digitChar_def)
  show ?thesis
    using volume_events_on_fresh_address [of emptyStore "''0xAB''"
        "[(1000000000000000000, Fin 1), (2500000000000000000, Fin 2)]"]
    by (simp add: l a b)
qed

subsection \<open>The best comment\<close>

lemma call_frame:
  "\<exists>e d. call db = (e, d) \<and> News d = News db \<and> Comments d = Comments db
          \<and> issued d = issued db"
  by (cases "faults db") (auto simp: call_def)

lemma zero_balances_fold:
  "\<forall>c\<in>set cs. tokenBalances (walletAddress c) = Some 0 \<Longrightarrow>
   foldl (bestCommentStep getTime tokenBalances) (None, 0) cs = (None, 0)"
  by (induction cs) (simp_all add: bestCommentStep_def)

lemma zero_balances_none:
  "\<forall>c\<in>set cs. tokenBalances (walletAddress c) = Some 0 \<Longrightarrow>
   getBestComment getTime tokenBalances cs = None"
  by (simp add: getBestComment_def zero_balances_fold)

lemma listen_no_best:
  assumes "\<forall>c\<in>set (Comments db). newsId c = toLowerCase (newsId newComment) \<longrightarrow>
             chain (newsId newComment) (walletAddress c) = Some 0"
  shows "News (listenToSupabaseComments getTime chain newComment db) = News db
         \<and> issued (listenToSupabaseComments getTime chain newComment db) = issued db"
proof -
  from call_frame [of db]
  obtain e1 d1 where c1: "call db = (e1, d1)" and n1: "News d1 = News db"
    and m1: "Comments d1 = Comments db" and i1: "issued d1 = issued db"
    by blast
  from call_frame [of d1]
  obtain e2 d2 where c2: "call d1 = (e2, d2)" and n2: "News d2 = News d1"
    and m2: "Comments d2 = Comments d1" and i2: "issued d2 = issued d1"
    by blast
  let ?all = "sortBy (\<lambda>a b. minus_number (getTime (createdAt b)) (getTime (createdAt a)))
                (filter (\<lambda>c. newsId c = toLowerCase (newsId newComment)) (Comments d2))"
  have "\<forall>c\<in>set ?all. chain (newsId newComment) (walletAddress c) = Some 0"
    using assms by (simp add: set_sortBy m1 m2)
  then have none: "getBestComment getTime (chain (newsId newComment)) ?all = None"
    by (rule zero_balances_none)
  show ?thesis
    by (simp add: listenToSupabaseComments_def c1 c2 none n1 n2 i1 i2 Let_def
        split: response.split option.split)
qed

text \<open>
  C2, as the specification states it, fails: the best balance starts at 0 and the best
  comment at null, so a balance of 0 is neither greater than the best balance nor a tie
  with a best comment that exists. With one comment of balance 0, \<^verbatim>\<open>getBestComment\<close>
  returns null, and the handler stops at line 703 without an update.
\<close>

theorem zero_balances_counterexample:
  "getBestComment clock (\<lambda>w. Some 0) [earlyComment] = None
   \<and> getBestComment clock (\<lambda>w. Some 0) [earlyComment] \<noteq> Some earlyComment
   \<and> listenToSupabaseComments clock (\<lambda>a w. Some 0) earlyComment
        (emptyStore\<lparr>News := [newsRow], Comments := [earlyComment]\<rparr>)
       = emptyStore\<lparr>News := [newsRow], Comments := [earlyComment]\<rparr>"
  by code_simp

text \<open>
  C2, amended: when the balance of every commenter is looked up with success and is 0,
  \<^verbatim>\<open>getBestComment\<close> selects no comment (it returns null) in whatever order the comments
  come, and the handler of the insertion sends no update and leaves the news rows, and
  with them the best comment, as they are.
\<close>

theorem zero_balances_no_best_comment:
  "((\<forall>c\<in>set allComments. tokenBalances (walletAddress c) = Some 0) \<longrightarrow>
      getBestComment getTime tokenBalances allComments = None)
   \<and> ((\<forall>c\<in>set (Comments db). newsId c = toLowerCase (newsId newComment) \<longrightarrow>
           chain (newsId newComment) (walletAddress c) = Some 0) \<longrightarrow>
        News (listenToSupabaseComments getTime chain newComment db) = News db
        \<and> issued (listenToSupabaseComments getTime chain newComment db) = issued db)"
  using zero_balances_none [of allComments tokenBalances getTime]
    listen_no_best [where db = db and chain = chain and newComment = newComment
      and getTime = getTime]
  by blast

theorem zero_balances_no_best_comment_witness:
  "getBestComment clock (\<lambda>w. Some 0) [lateComment, earlyComment] = None
   \<and> News (listenToSupabaseComments clock (\<lambda>a w. Some 0) lateComment
        (emptyStore\<lparr>News := [newsRow], Comments := [earlyComment, lateComment]\<rparr>)) = [newsRow]
   \<and> issued (listenToSupabaseComments clock (\<lambda>a w. Some 0) lateComment
        (emptyStore\<lparr>News := [newsRow], Comments := [earlyComment, lateComment]\<rparr>)) = []"
  using zero_balances_no_best_comment
    [where allComments = "[lateComment, earlyComment]" and tokenBalances = "\<lambda>w. Some 0"
       and getTime = clock and chain = "\<lambda>a w. Some 0" and newComment = lateComment
       and db = "emptyStore\<lparr>News := [newsRow], Comments := [earlyComment, lateComment]\<rparr>"]
  by simp

text \<open>
  C7: of two comments whose balances are looked up with success and are equal and not 0,
  \<^verbatim>\<open>getBestComment\<close> selects the one whose \<^verbatim>\<open>createdAt\<close> is the later time, in either order
  of the two.
\<close>

theorem tie_break_later_wins:
  assumes "tokenBalances (walletAddress c1) = Some b"
    and "tokenBalances (walletAddress c2) = Some b"
    and "0 < b"
    and "greater (getTime (createdAt c2)) (getTime (createdAt c1))"
  shows "getBestComment getTime tokenBalances [c1, c2] = Some c2
         \<and> getBestComment getTime tokenBalances [c2, c1] = Some c2"
proof -
  from assms(4) have "\<not> greater (getTime (createdAt c1)) (getTime (createdAt c2))"
    unfolding greater_def by (rule positive_minus_asym)
  with assms show ?thesis
    by (simp add: getBestComment_def bestCommentStep_def)
qed

theorem tie_break_later_wins_witness:
  "getBestComment clock (\<lambda>w. Some 5) [earlyComment, lateComment] = Some lateComment
   \<and> getBestComment clock (\<lambda>w. Some 5) [lateComment, earlyComment] = Some lateComment"
proof -
  have g: "greater (clock (createdAt lateComment)) (clock (createdAt earlyComment))"
    by (simp add: greater_def)
  show ?thesis
    by (rule tie_break_later_wins [of "\<lambda>w. Some 5" earlyComment 5 lateComment clock, OF refl refl _ g])
       simp
qed

end
